theory Spec2Isabelle
  imports Complex_Main "HOL-Library.Multiset"
begin

section \<open>Data model\<close>

text \<open>
  The export code of \<^verbatim>\<open>apps/export\<close> works on the nested dicts that the GraphQL layer
  returns for a site. Each dict is a record here, one field per key that the code reads.
  A field read with \<^verbatim>\<open>d.get(k)\<close> has an option type: \<open>None\<close> stands for a missing key
  and for a stored \<^verbatim>\<open>None\<close> alike, as \<^verbatim>\<open>get\<close> does not tell them apart. A field read
  with a container default (\<^verbatim>\<open>d.get(k, {})\<close>, \<^verbatim>\<open>d.get(k, [])\<close>) holds an object or a
  list when the key is there, and \<open>None\<close> stands for the missing key.
  \<^verbatim>\<open>surfaceCracksSelect\<close> is read with a string default and may hold \<^verbatim>\<open>None\<close>: it has
  both layers.

  The code tests two dicts for truth, the project (\<^verbatim>\<open>if project:\<close>) and the site
  argument of \<^verbatim>\<open>get_preset_intervals\<close> (\<^verbatim>\<open>and site\<close>): a dict is falsy when it has no
  key at all. Where that test is made the dict is a \<open>py_dict\<close>: \<open>Empty_dict\<close> is \<^verbatim>\<open>{}\<close>,
  \<open>Dict r\<close> a dict with at least one key, read through the record \<open>r\<close>.

  Depths are Python ints and coordinates are numbers, modelled as reals. A colour
  component is a Python float: a finite number, modelled as a real with exact
  arithmetic, or one of the three values that are not finite, on which \<^verbatim>\<open>round\<close> and
  \<^verbatim>\<open>int\<close> raise. Preset names are strings.
\<close>

datatype 'a py_dict = Empty_dict | Dict 'a

datatype py_float = Finite real | NaN | PosInf | NegInf

record depth_interval =
  di_start :: "int option"
  di_end :: "int option"

record with_depth =
  depthInterval :: "depth_interval option"

record interval = with_depth +
  label :: "string option"
  soilTextureEnabled :: "bool option"
  soilColorEnabled :: "bool option"

record measurement = with_depth +
  texture :: "string option"
  rockFragmentVolume :: "string option"
  colorHue :: "py_float option"
  colorValue :: "py_float option"
  colorChroma :: "py_float option"

record soil_settings =
  ss_depthIntervalPreset :: "string option"
  ss_depthIntervals :: "interval list option"

record project =
  soilSettings :: "soil_settings option"

record soil_data =
  slopeSteepnessDegree :: "int option"
  surfaceCracksSelect :: "string option option"
  sd_depthIntervalPreset :: "string option"
  sd_depthIntervals :: "interval list option"
  depthDependentData :: "measurement list option"

record site =
  site_id :: "string option"
  latitude :: "real option"
  longitude :: "real option"
  soilData :: "soil_data option"
  project :: "project py_dict option"

text \<open>The exceptions that the modelled code can raise.\<close>

datatype py_error =
  AttributeError | IndexError | ValueError | OverflowError | RuntimeError "string list"

text \<open>
  Values that the code builds: the payload for the soil-id query, the cached results and
  the structured failure. A dict is an association list in insertion order.
\<close>

datatype json =
  JNull | JInt int | JReal real | JStr string | JList "json list" | JDict "(string \<times> json) list"

text \<open>An entry of \<^verbatim>\<open>NRCSIntervalDefaults\<close> or \<^verbatim>\<open>BLMIntervalDefaults\<close>.\<close>

record interval_default =
  depth_interval_start :: int
  depth_interval_end :: int

section \<open>Python primitives\<close>

text \<open>\<^verbatim>\<open>site.get("soilData", {})\<close>: the empty dict answers \<^verbatim>\<open>None\<close> to every \<^verbatim>\<open>get\<close>.\<close>

definition empty_soil_data :: soil_data where
  "empty_soil_data =
     \<lparr>slopeSteepnessDegree = None, surfaceCracksSelect = None, sd_depthIntervalPreset = None,
      sd_depthIntervals = None, depthDependentData = None\<rparr>"

definition get_soilData :: "site \<Rightarrow> soil_data" where
  "get_soilData s = (case soilData s of None \<Rightarrow> empty_soil_data | Some sd \<Rightarrow> sd)"

text \<open>Truthiness of an optional string and of an optional number.\<close>

definition truthy_str :: "string option \<Rightarrow> bool" where
  "truthy_str v = (case v of None \<Rightarrow> False | Some x \<Rightarrow> x \<noteq> [])"

definition truthy_num :: "real option \<Rightarrow> bool" where
  "truthy_num v = (case v of None \<Rightarrow> False | Some x \<Rightarrow> x \<noteq> 0)"

text \<open>\<^verbatim>\<open>x or d\<close> for an optional string and for an optional int.\<close>

definition or_str :: "string option \<Rightarrow> string \<Rightarrow> string" where
  "or_str v d = (case v of None \<Rightarrow> d | Some x \<Rightarrow> if x \<noteq> [] then x else d)"

definition or_int :: "int option \<Rightarrow> int \<Rightarrow> int" where
  "or_int v d = (case v of None \<Rightarrow> d | Some x \<Rightarrow> if x \<noteq> 0 then x else d)"

text \<open>\<^verbatim>\<open>round(x)\<close>: to the nearest integer, a tie to the even one.\<close>

definition py_round :: "real \<Rightarrow> int" where
  "py_round x =
     (let f = \<lfloor>x\<rfloor>; d = x - of_int f
      in if d < 1 / 2 then f else if 1 / 2 < d then f + 1 else if even f then f else f + 1)"

text \<open>
  \<^verbatim>\<open>round\<close> on a float: \<^verbatim>\<open>ValueError\<close> on NaN, \<^verbatim>\<open>OverflowError\<close> on an infinity.
\<close>

definition round_float :: "py_float \<Rightarrow> py_error + int" where
  "round_float x =
     (case x of
        Finite r \<Rightarrow> Inr (py_round r)
      | NaN \<Rightarrow> Inl ValueError
      | PosInf \<Rightarrow> Inl OverflowError
      | NegInf \<Rightarrow> Inl OverflowError)"

text \<open>\<^verbatim>\<open>x // 10\<close> and \<^verbatim>\<open>x % 10\<close> on finite numbers.\<close>

definition floordiv10 :: "real \<Rightarrow> int" where
  "floordiv10 x = \<lfloor>x / 10\<rfloor>"

definition mod10 :: "real \<Rightarrow> real" where
  "mod10 x = x - 10 * of_int \<lfloor>x / 10\<rfloor>"

text \<open>\<^verbatim>\<open>xs[i]\<close>: a negative index counts from the end, an index out of range raises.\<close>

definition py_index :: "'a list \<Rightarrow> int \<Rightarrow> py_error + 'a" where
  "py_index xs i =
     (if 0 \<le> i \<and> i < int (length xs) then Inr (xs ! nat i)
      else if i < 0 \<and> - int (length xs) \<le> i then Inr (xs ! nat (int (length xs) + i))
      else Inl IndexError)"

text \<open>Decimal digits of a Python int, as \<^verbatim>\<open>str\<close> and an f-string print them.\<close>

definition digit_char :: "nat \<Rightarrow> char" where
  "digit_char d = ''0123456789'' ! d"

fun str_nat :: "nat \<Rightarrow> string" where
  "str_nat n = (if n < 10 then [digit_char n] else str_nat (n div 10) @ [digit_char (n mod 10)])"

declare str_nat.simps [simp del]

definition str_int :: "int \<Rightarrow> string" where
  "str_int i = (if i < 0 then CHR ''-'' # str_nat (nat (- i)) else str_nat (nat i))"

text \<open>
  \<^verbatim>\<open>f"{(k * 5) / 2:g}"\<close> for an int \<open>k\<close>: the float is a whole number or a whole number
  and a half, printed without a trailing \<^verbatim>\<open>.0\<close>. (The \<^verbatim>\<open>g\<close> format keeps six significant
  digits; the values printed by the code are 2.5, 5, 7.5 and 10.)
\<close>

definition format_g_halves :: "int \<Rightarrow> string" where
  "format_g_halves k =
     (let n = k * 5 in if even n then str_int (n div 2) else str_int (n div 2) @ ''.5'')"

section \<open>depth\_helpers.py\<close>

text \<open>
  Modelled from the spec: the enum \<^verbatim>\<open>DepthIntervalPreset\<close> of
  \<^verbatim>\<open>apps.soil_id.models.project_soil_settings\<close> is not among the sources; its four values
  are the tags that the spec and the docstring of \<^verbatim>\<open>get_effective_preset\<close> name.
\<close>

definition PRESET_NRCS :: string where "PRESET_NRCS = ''NRCS''"
definition PRESET_BLM :: string where "PRESET_BLM = ''BLM''"
definition PRESET_CUSTOM :: string where "PRESET_CUSTOM = ''CUSTOM''"
definition PRESET_NONE :: string where "PRESET_NONE = ''NONE''"

definition build_depth_intervals :: "interval_default list \<Rightarrow> interval list" where
  "build_depth_intervals interval_defaults =
     map (\<lambda>d. \<lparr>depthInterval =
                   Some \<lparr>di_start = Some (depth_interval_start d),
                         di_end = Some (depth_interval_end d)\<rparr>,
                label = Some (str_int (depth_interval_start d) @ ''-'' @
                              str_int (depth_interval_end d) @ '' cm''),
                soilTextureEnabled = None, soilColorEnabled = None\<rparr>)
         interval_defaults"

text \<open>
  The tables \<^verbatim>\<open>NRCSIntervalDefaults\<close> and \<^verbatim>\<open>BLMIntervalDefaults\<close> come from the same
  missing module; they are parameters of everything that reads the presets.
\<close>

record preset_tables =
  NRCSIntervalDefaults :: "interval_default list"
  BLMIntervalDefaults :: "interval_default list"

definition NRCS_DEPTH_INTERVALS :: "preset_tables \<Rightarrow> interval list" where
  "NRCS_DEPTH_INTERVALS T = build_depth_intervals (NRCSIntervalDefaults T)"

definition BLM_DEPTH_INTERVALS :: "preset_tables \<Rightarrow> interval list" where
  "BLM_DEPTH_INTERVALS T = build_depth_intervals (BLMIntervalDefaults T)"

definition depth_key :: "'a with_depth_scheme \<Rightarrow> int option \<times> int option" where
  "depth_key interval =
     (case depthInterval interval of
        None \<Rightarrow> (None, None)
      | Some di \<Rightarrow> (di_start di, di_end di))"

definition get_effective_preset :: "site \<Rightarrow> string" where
  "get_effective_preset s =
     (let site_level =
            (let soil_data = get_soilData s;
                 preset = sd_depthIntervalPreset soil_data
             in if preset = Some PRESET_CUSTOM then PRESET_NONE else or_str preset PRESET_NONE)
      in case project s of
           Some (Dict p) \<Rightarrow>
             or_str (case soilSettings p of None \<Rightarrow> None | Some ss \<Rightarrow> ss_depthIntervalPreset ss)
                    PRESET_NONE
         | Some Empty_dict \<Rightarrow> site_level
         | None \<Rightarrow> site_level)"

definition get_preset_intervals ::
    "preset_tables \<Rightarrow> string \<Rightarrow> site py_dict option \<Rightarrow> py_error + interval list" where
  "get_preset_intervals T preset s =
     (if preset = PRESET_NRCS then Inr (NRCS_DEPTH_INTERVALS T)
      else if preset = PRESET_BLM then Inr (BLM_DEPTH_INTERVALS T)
      else if preset = PRESET_CUSTOM then
        (case s of
           None \<Rightarrow> Inr []
         | Some Empty_dict \<Rightarrow> Inr []
         | Some (Dict st) \<Rightarrow>
             (case project st of
                None \<Rightarrow> Inl AttributeError
              | Some Empty_dict \<Rightarrow> Inr []
              | Some (Dict p) \<Rightarrow>
                  (case soilSettings p of
                     None \<Rightarrow> Inr []
                   | Some ss \<Rightarrow>
                       (case ss_depthIntervals ss of None \<Rightarrow> Inr [] | Some ivs \<Rightarrow> Inr ivs))))
      else Inr [])"

text \<open>The two loops of \<^verbatim>\<open>get_visible_intervals\<close> append one tagged pair at a time.\<close>

fun append_tagged ::
    "(interval \<times> string) list \<Rightarrow> interval list \<Rightarrow> string \<Rightarrow> (interval \<times> string) list" where
  "append_tagged result [] tag = result"
| "append_tagged result (iv # ivs) tag = append_tagged (result @ [(iv, tag)]) ivs tag"

text \<open>The sort key \<^verbatim>\<open>lambda x: depth_key(x[0])[0] or 0\<close>.\<close>

definition sort_start :: "interval \<times> string \<Rightarrow> int" where
  "sort_start x = or_int (fst (depth_key (fst x))) 0"

text \<open>
  \<^verbatim>\<open>list.sort(key=...)\<close> is a stable sort in ascending order of the keys; for a linear
  order the result of a stable sort is unique, and \<open>sort_key\<close> computes it.

  \<^verbatim>\<open>get_visible_intervals\<close> hands its site on to \<^verbatim>\<open>get_preset_intervals\<close>, which tests
  it for truth only when the preset is \<^verbatim>\<open>CUSTOM\<close>. The effective preset is \<^verbatim>\<open>CUSTOM\<close>
  only for a site with a non-empty project, which is not the empty dict; so the site is
  handed on as \<open>Dict s\<close>.
\<close>

definition get_visible_intervals ::
    "preset_tables \<Rightarrow> site \<Rightarrow> py_error + (interval \<times> string) list" where
  "get_visible_intervals T s =
     (let effective_preset = get_effective_preset s
      in case get_preset_intervals T effective_preset (Some (Dict s)) of
           Inl e \<Rightarrow> Inl e
         | Inr preset_intervals \<Rightarrow>
             (let result = append_tagged [] preset_intervals effective_preset;
                  site_intervals =
                    (case sd_depthIntervals (get_soilData s) of None \<Rightarrow> [] | Some ivs \<Rightarrow> ivs);
                  result = append_tagged result site_intervals PRESET_CUSTOM
              in Inr (sort_key sort_start result)))"

section \<open>fetch\_data.py: the Munsell lookup\<close>

text \<open>
  The lookup table is the content of the CSV file once loaded: rows keyed by hue string,
  value and chroma. The loader and its file access are not modelled; an empty table is
  what a missing file leaves.
\<close>

type_synonym lab = "real \<times> real \<times> real"
type_synonym munsell_table = "((string \<times> int \<times> int) \<times> lab) list"

definition HUE_NAMES :: "string list" where
  "HUE_NAMES = [''R'', ''YR'', ''Y'', ''GY'', ''G'', ''BG'', ''B'', ''PB'', ''P'', ''RP'']"

text \<open>
  The decoding of a finite \<^verbatim>\<open>colorHue\<close> to a Munsell hue string, the part of
  \<^verbatim>\<open>munsell_to_lab\<close> that computes \<^verbatim>\<open>hue_str\<close>.
\<close>

definition decode_hue :: "real \<Rightarrow> py_error + string" where
  "decode_hue color_hue =
     (let hue = (if color_hue = 100 then 0 else color_hue);
          hue_index = floordiv10 hue;
          substep = py_round (mod10 hue / 2.5);
          hue_index = (if substep = 0 then (hue_index + 9) mod 10 else hue_index);
          substep = (if substep = 0 then 4 else substep)
      in case py_index HUE_NAMES hue_index of
           Inl e \<Rightarrow> Inl e
         | Inr name \<Rightarrow> Inr (format_g_halves substep @ name))"

text \<open>
  On a hue that is not finite, \<^verbatim>\<open>hue // 10\<close> is NaN and \<^verbatim>\<open>int\<close> raises
  \<^verbatim>\<open>ValueError\<close>.
\<close>

definition decode_hue_float :: "py_float \<Rightarrow> py_error + string" where
  "decode_hue_float color_hue =
     (case color_hue of Finite h \<Rightarrow> decode_hue h | _ \<Rightarrow> Inl ValueError)"

definition munsell_to_lab ::
    "munsell_table \<Rightarrow> py_float \<Rightarrow> py_float \<Rightarrow> py_float \<Rightarrow> py_error + lab option" where
  "munsell_to_lab table color_hue color_value color_chroma =
     (if table = [] then Inr None
      else
        (case round_float color_chroma of
           Inl e \<Rightarrow> Inl e
         | Inr chroma \<Rightarrow>
             (case round_float color_value of
                Inl e \<Rightarrow> Inl e
              | Inr val \<Rightarrow>
                  if chroma = 0 then Inr (map_of table (''N'', val, 0))
                  else
                    (case decode_hue_float color_hue of
                       Inl e \<Rightarrow> Inl e
                     | Inr hue_str \<Rightarrow> Inr (map_of table (hue_str, val, chroma))))))"

section \<open>fetch\_data.py: the soil-id query\<close>

definition json_int :: "int option \<Rightarrow> json" where
  "json_int v = (case v of None \<Rightarrow> JNull | Some i \<Rightarrow> JInt i)"

definition json_real :: "real option \<Rightarrow> json" where
  "json_real v = (case v of None \<Rightarrow> JNull | Some x \<Rightarrow> JReal x)"

definition json_str :: "string option \<Rightarrow> json" where
  "json_str v = (case v of None \<Rightarrow> JNull | Some x \<Rightarrow> JStr x)"

text \<open>
  The body of the loop over the measurements in \<^verbatim>\<open>fetch_soil_id\<close>, after the
  visibility test: it builds \<^verbatim>\<open>depth_entry\<close>, one key at a time.
\<close>

definition depth_entry :: "munsell_table \<Rightarrow> measurement \<Rightarrow> py_error + json" where
  "depth_entry table m =
     (let di = (case depthInterval m of
                  None \<Rightarrow> \<lparr>di_start = None, di_end = None\<rparr>
                | Some d \<Rightarrow> d);
          entry = [(''depthInterval'',
                    JDict [(''start'', json_int (di_start di)), (''end'', json_int (di_end di))])];
          entry = (case texture m of
                     None \<Rightarrow> entry
                   | Some t \<Rightarrow> if t \<noteq> [] then entry @ [(''texture'', JStr t)] else entry);
          entry = (case rockFragmentVolume m of
                     None \<Rightarrow> entry
                   | Some r \<Rightarrow> if r \<noteq> [] then entry @ [(''rockFragmentVolume'', JStr r)] else entry)
      in case (colorHue m, colorValue m, colorChroma m) of
           (Some h, Some v, Some c) \<Rightarrow>
             (case munsell_to_lab table h v c of
                Inl e \<Rightarrow> Inl e
              | Inr None \<Rightarrow> Inr (JDict entry)
              | Inr (Some (L, A, B)) \<Rightarrow>
                  Inr (JDict (entry @
                     [(''colorLAB'', JDict [(''L'', JReal L), (''A'', JReal A), (''B'', JReal B)])])))
         | _ \<Rightarrow> Inr (JDict entry))"

text \<open>
  The loop itself: a measurement whose key is not visible is skipped, an entry is
  appended for every other one, and an exception of the converter ends the loop.
\<close>

fun collect_entries ::
    "munsell_table \<Rightarrow> (int option \<times> int option) set \<Rightarrow> json list \<Rightarrow> measurement list
       \<Rightarrow> py_error + json list" where
  "collect_entries table visible_keys acc [] = Inr acc"
| "collect_entries table visible_keys acc (m # ms) =
     (if depth_key m \<notin> visible_keys then collect_entries table visible_keys acc ms
      else (case depth_entry table m of
              Inl e \<Rightarrow> Inl e
            | Inr d \<Rightarrow> collect_entries table visible_keys (acc @ [d]) ms))"

text \<open>
  The part of \<^verbatim>\<open>fetch_soil_id\<close> between the coordinate check and the query: it builds
  the dict \<^verbatim>\<open>data\<close> that is sent to the soil-id service.
\<close>

definition soil_id_input :: "preset_tables \<Rightarrow> munsell_table \<Rightarrow> site \<Rightarrow> py_error + json" where
  "soil_id_input T table s =
     (let soil_data = get_soilData s
      in case get_visible_intervals T s of
           Inl e \<Rightarrow> Inl e
         | Inr visible \<Rightarrow>
             (let visible_keys = set (map (\<lambda>x. depth_key (fst x)) visible);
                  measurements =
                    (case depthDependentData soil_data of None \<Rightarrow> [] | Some ms \<Rightarrow> ms)
              in case collect_entries table visible_keys [] measurements of
                   Inl e \<Rightarrow> Inl e
                 | Inr entries \<Rightarrow>
                     Inr (JDict
                       [(''slope'', json_int (slopeSteepnessDegree soil_data)),
                        (''surfaceCracks'',
                           (case surfaceCracksSelect soil_data of
                              None \<Rightarrow> JStr ''NO_CRACKING''
                            | Some v \<Rightarrow> json_str v)),
                        (''depthDependentData'', JList entries)])))"

text \<open>
  What \<^verbatim>\<open>schema.execute\<close> answers, and the module state that \<^verbatim>\<open>fetch_soil_id\<close> reads:
  the cache switch, the cache, the loaded Munsell table, the preset tables and the
  query-execution collaborator, which gets the variables of the query and the request.
\<close>

record response =
  res_errors :: "string list"
  res_data :: json

record 'q module_state =
  USE_SOIL_ID_CACHE :: bool
  soil_id_cache :: "string \<Rightarrow> json option"
  munsell_lab_table :: munsell_table
  preset_defaults :: preset_tables
  schema_execute :: "json \<Rightarrow> 'q \<Rightarrow> response"

definition missing_coordinates :: json where
  "missing_coordinates = JDict [(''error'', JStr ''Site missing latitude or longitude'')]"

text \<open>
  \<^verbatim>\<open>fetch_soil_id\<close> returns its result, or the exception it raises, together with the
  list of the queries it has executed against the schema (the variables of each).
\<close>

definition cache_lookup :: "'q module_state \<Rightarrow> site \<Rightarrow> json option" where
  "cache_lookup g s =
     (if USE_SOIL_ID_CACHE g \<and> truthy_str (site_id s)
      then (case site_id s of None \<Rightarrow> None | Some i \<Rightarrow> soil_id_cache g i)
      else None)"

definition fetch_soil_id :: "'q module_state \<Rightarrow> site \<Rightarrow> 'q \<Rightarrow> (py_error + json) \<times> json list" where
  "fetch_soil_id g s request =
     (case cache_lookup g s of
        Some cached \<Rightarrow> (Inr cached, [])
      | None \<Rightarrow>
          (if \<not> truthy_num (latitude s) \<or> \<not> truthy_num (longitude s)
           then (Inr missing_coordinates, [])
           else
             (case soil_id_input (preset_defaults g) (munsell_lab_table g) s of
                Inl e \<Rightarrow> (Inl e, [])
              | Inr data \<Rightarrow>
                  (let variable_values =
                         JDict [(''latitude'', json_real (latitude s)),
                                (''longitude'', json_real (longitude s)),
                                (''data'', data)];
                       res = schema_execute g variable_values request
                   in if res_errors res \<noteq> []
                      then (Inl (RuntimeError (res_errors res)), [variable_values])
                      else (Inr (res_data res), [variable_values])))))"

text \<open>
  The app encodes \<^verbatim>\<open>colorHue\<close> on the scale from 0 to 100, the range in which the hue
  decoding finds a hue name, and its colour components are finite numbers.
\<close>

definition finite_float :: "py_float option \<Rightarrow> bool" where
  "finite_float x = (case x of None \<Rightarrow> True | Some (Finite r) \<Rightarrow> True | Some _ \<Rightarrow> False)"

definition color_in_range :: "measurement \<Rightarrow> bool" where
  "color_in_range m =
     ((case colorHue m of
         None \<Rightarrow> True
       | Some (Finite h) \<Rightarrow> 0 \<le> h \<and> h \<le> 100
       | Some _ \<Rightarrow> False) \<and>
      finite_float (colorValue m) \<and> finite_float (colorChroma m))"

section \<open>Evaluation lemmas\<close>

lemmas preset_names = PRESET_NRCS_def PRESET_BLM_def PRESET_CUSTOM_def PRESET_NONE_def

lemma str_int_digits:
  "str_int 0 = ''0''" "str_int 1 = ''1''" "str_int 5 = ''5''" "str_int 10 = ''10''"
  "str_int 15 = ''15''"
  by (simp_all add: str_int_def str_nat.simps digit_char_def)

lemma format_g_halves_1: "format_g_halves 1 = ''2.5''"
  by (simp add: format_g_halves_def str_int_def str_nat.simps digit_char_def)

lemma format_g_halves_2: "format_g_halves 2 = ''5''"
  by (simp add: format_g_halves_def str_int_def str_nat.simps digit_char_def)

lemma format_g_halves_4: "format_g_halves 4 = ''10''"
  by (simp add: format_g_halves_def str_int_def str_nat.simps digit_char_def)

lemma py_round_0: "py_round 0 = 0"
  by (simp add: py_round_def)

lemma py_round_1: "py_round 1 = 1"
  by (simp add: py_round_def)

lemma py_round_5: "py_round 5 = 5"
  by (simp add: py_round_def)

lemma py_round_6: "py_round 6 = 6"
  by (simp add: py_round_def)

lemma decode_hue_5: "decode_hue 5 = Inr ''5R''"
  by (simp add: decode_hue_def py_round_def mod10_def floordiv10_def format_g_halves_2
      py_index_def HUE_NAMES_def Let_def)

lemma decode_hue_0: "decode_hue 0 = Inr ''10RP''"
  by (simp add: decode_hue_def py_round_def mod10_def floordiv10_def format_g_halves_4
      py_index_def HUE_NAMES_def Let_def)

lemma decode_hue_2_5: "decode_hue 2.5 = Inr ''2.5R''"
  by (simp add: decode_hue_def py_round_def mod10_def floordiv10_def format_g_halves_1
      py_index_def HUE_NAMES_def Let_def)

lemma munsell_to_lab_finite:
  "munsell_to_lab table (Finite h) (Finite v) (Finite c) =
     (if table = [] then Inr None
      else if py_round c = 0 then Inr (map_of table (''N'', py_round v, 0))
      else (case decode_hue h of
              Inl e \<Rightarrow> Inl e
            | Inr hue_str \<Rightarrow> Inr (map_of table (hue_str, py_round v, py_round c))))"
  by (simp add: munsell_to_lab_def round_float_def decode_hue_float_def)

lemma munsell_to_lab_chromatic:
  "table \<noteq> [] \<Longrightarrow> py_round c \<noteq> 0 \<Longrightarrow> decode_hue h = Inr hs \<Longrightarrow>
   munsell_to_lab table (Finite h) (Finite v) (Finite c) =
     Inr (map_of table (hs, py_round v, py_round c))"
  by (simp add: munsell_to_lab_finite)

section \<open>The hue decoding never fails on the scale from 0 to 100\<close>

lemma py_index_in_range:
  "0 \<le> i \<Longrightarrow> i < int (length xs) \<Longrightarrow> py_index xs i = Inr (xs ! nat i)"
  by (simp add: py_index_def)

lemma floordiv10_range:
  assumes "0 \<le> x" and "x < 100"
  shows "0 \<le> floordiv10 x \<and> floordiv10 x < 10"
proof -
  have "0 \<le> x / 10" and "x / 10 < 10" using assms by simp_all
  then show ?thesis unfolding floordiv10_def by (simp add: floor_less_iff)
qed

lemma decode_hue_total:
  assumes "0 \<le> h" and "h \<le> 100"
  shows "\<exists>hue_str. decode_hue h = Inr hue_str"
proof -
  define hue where "hue = (if h = 100 then 0 else h)"
  have r: "0 \<le> hue" "hue < 100" using assms by (auto simp: hue_def)
  define i where "i = (if py_round (mod10 hue / 2.5) = 0 then (floordiv10 hue + 9) mod 10
                       else floordiv10 hue)"
  have "0 \<le> i \<and> i < int (length HUE_NAMES)"
    using floordiv10_range [OF r] by (auto simp: i_def HUE_NAMES_def)
  then have "py_index HUE_NAMES i = Inr (HUE_NAMES ! nat i)"
    by (simp add: py_index_in_range)
  then show ?thesis
    unfolding decode_hue_def Let_def hue_def [symmetric] i_def [symmetric] by simp
qed

lemma munsell_to_lab_total:
  assumes "0 \<le> h" and "h \<le> 100"
  shows "\<exists>r. munsell_to_lab table (Finite h) (Finite v) (Finite c) = Inr r"
proof -
  obtain hs where "decode_hue h = Inr hs" using decode_hue_total [OF assms] by blast
  then show ?thesis by (simp add: munsell_to_lab_finite)
qed

section \<open>Claims about the Munsell lookup\<close>

text \<open>
  C1, as the spec states it, fails on the code: for \<^verbatim>\<open>colorHue = 5\<close> the remainder 5
  gives substep 2 and step 5, so the hue string is \<^verbatim>\<open>5R\<close>, not \<^verbatim>\<open>2.5R\<close>; a table that
  only holds the \<^verbatim>\<open>2.5R\<close> row misses.
\<close>

theorem munsell_hue5_counterexample:
  "decode_hue 5 \<noteq> Inr ''2.5R'' \<and>
   munsell_to_lab [((''2.5R'', 5, 1), (41, 12, 7))] (Finite 5) (Finite 5) (Finite 1) = Inr None"
  by (simp add: decode_hue_5 munsell_to_lab_finite py_round_1 py_round_5)

text \<open>
  C1, amended: \<^verbatim>\<open>colorHue = 5\<close> decodes to \<^verbatim>\<open>5R\<close> (family R, step 5), and
  \<^verbatim>\<open>colorHue = 0\<close> rolls back to the previous family and decodes to \<^verbatim>\<open>10RP\<close>; with a
  loaded table and a chroma that does not round to 0, \<^verbatim>\<open>munsell_to_lab\<close> looks these hue
  strings up.
\<close>

theorem munsell_boundary_hues:
  "decode_hue 5 = Inr ''5R'' \<and> decode_hue 0 = Inr ''10RP'' \<and>
   (table \<noteq> [] \<and> py_round c \<noteq> 0 \<longrightarrow>
      munsell_to_lab table (Finite 5) (Finite v) (Finite c) =
        Inr (map_of table (''5R'', py_round v, py_round c)) \<and>
      munsell_to_lab table (Finite 0) (Finite v) (Finite c) =
        Inr (map_of table (''10RP'', py_round v, py_round c)))"
  by (simp add: decode_hue_5 decode_hue_0 munsell_to_lab_chromatic)

theorem munsell_boundary_hues_witness:
  "munsell_to_lab [((''5R'', 5, 1), (41, 12, 7))] (Finite 5) (Finite 5) (Finite 1) =
     Inr (Some (41, 12, 7)) \<and>
   munsell_to_lab [((''5R'', 5, 1), (41, 12, 7))] (Finite 0) (Finite 5) (Finite 1) = Inr None"
  using munsell_boundary_hues [of "[((''5R'', 5, 1), (41, 12, 7))]" 1 5]
  by (simp add: py_round_1 py_round_5)

text \<open>
  C5, as stated, fails on the code: value and chroma are rounded before anything is
  looked up, and \<^verbatim>\<open>round\<close> raises on a float that is not finite. With a loaded table
  and a hue within range, a NaN value raises \<^verbatim>\<open>ValueError\<close> and an infinite chroma
  \<^verbatim>\<open>OverflowError\<close>.
\<close>

theorem munsell_to_lab_raises_counterexample:
  "munsell_to_lab [((''5R'', 5, 1), (41, 12, 7))] (Finite 5) NaN (Finite 1) = Inl ValueError \<and>
   munsell_to_lab [((''5R'', 5, 1), (41, 12, 7))] (Finite 5) (Finite 5) PosInf =
     Inl OverflowError"
  by (simp add: munsell_to_lab_def round_float_def py_round_1)

text \<open>
  C5, amended: \<^verbatim>\<open>munsell_to_lab\<close> answers \<^verbatim>\<open>None\<close> at once on an empty table, whatever
  the arguments. For a hue within 0 to 100 and any finite value and chroma it raises
  nothing: its answer is the table's entry at the neutral key or at the decoded key, and
  it is \<^verbatim>\<open>None\<close> when the table has no row for the rounded value and chroma.
\<close>

theorem munsell_to_lab_never_raises:
  "munsell_to_lab [] x y z = Inr None \<and>
   (0 \<le> h \<and> h \<le> 100 \<longrightarrow>
      (\<exists>hue_str. decode_hue h = Inr hue_str \<and>
         munsell_to_lab table (Finite h) (Finite v) (Finite c) =
           Inr (if table = [] then None
                else if py_round c = 0 then map_of table (''N'', py_round v, 0)
                else map_of table (hue_str, py_round v, py_round c)))) \<and>
   (0 \<le> h \<and> h \<le> 100 \<and> (\<forall>hs. (hs, py_round v, py_round c) \<notin> fst ` set table) \<longrightarrow>
      munsell_to_lab table (Finite h) (Finite v) (Finite c) = Inr None)"
proof (intro conjI impI)
  show "munsell_to_lab [] x y z = Inr None" by (simp add: munsell_to_lab_def)
next
  assume "0 \<le> h \<and> h \<le> 100"
  then obtain hs where "decode_hue h = Inr hs" using decode_hue_total by blast
  then show "\<exists>hue_str. decode_hue h = Inr hue_str \<and>
         munsell_to_lab table (Finite h) (Finite v) (Finite c) =
           Inr (if table = [] then None
                else if py_round c = 0 then map_of table (''N'', py_round v, 0)
                else map_of table (hue_str, py_round v, py_round c))"
    by (simp add: munsell_to_lab_finite)
next
  assume a: "0 \<le> h \<and> h \<le> 100 \<and> (\<forall>hs. (hs, py_round v, py_round c) \<notin> fst ` set table)"
  then obtain hs where d: "decode_hue h = Inr hs" using decode_hue_total by blast
  from a have "map_of table (''N'', py_round v, py_round c) = None"
    and "map_of table (hs, py_round v, py_round c) = None"
    by (simp_all add: map_of_eq_None_iff)
  with d show "munsell_to_lab table (Finite h) (Finite v) (Finite c) = Inr None"
    by (auto simp: munsell_to_lab_finite)
qed

theorem munsell_to_lab_never_raises_witness:
  "(0::real) \<le> 37 \<and> (37::real) \<le> 100 \<and>
   munsell_to_lab [((''5R'', 5, 1), (41, 12, 7))] (Finite 37) (Finite 6) (Finite 1) = Inr None \<and>
   munsell_to_lab [] NaN PosInf NegInf = Inr None"
  using munsell_to_lab_never_raises [of NaN PosInf NegInf 37 "[((''5R'', 5, 1), (41, 12, 7))]" 6 1]
  by (simp add: py_round_1 py_round_6)

text \<open>
  C6: with chroma 0 the hue has no effect: any two hues, finite or not, give the same
  answer at the same value; for a finite value it is the table's entry at the neutral
  key of the rounded value; hue 0 and hue 100 agree at value 5.
\<close>

theorem munsell_neutral_ignores_hue:
  "munsell_to_lab table h1 v (Finite 0) = munsell_to_lab table h2 v (Finite 0) \<and>
   munsell_to_lab table h1 (Finite r) (Finite 0) =
     Inr (if table = [] then None else map_of table (''N'', py_round r, 0)) \<and>
   munsell_to_lab table (Finite 0) (Finite 5) (Finite 0) =
     munsell_to_lab table (Finite 100) (Finite 5) (Finite 0)"
  by (cases v) (simp_all add: munsell_to_lab_def round_float_def py_round_0)

section \<open>Claims about the depth interval presets\<close>

lemma get_effective_preset_custom_needs_project:
  "get_effective_preset s = PRESET_CUSTOM \<Longrightarrow> \<exists>p. project s = Some (Dict p)"
  by (auto simp: get_effective_preset_def or_str_def preset_names Let_def
      split: option.splits py_dict.splits if_splits)

lemma get_preset_intervals_effective:
  "\<exists>ivs. get_preset_intervals T (get_effective_preset s) (Some (Dict s)) = Inr ivs"
proof (cases "get_effective_preset s = PRESET_CUSTOM")
  case True
  then obtain p where "project s = Some (Dict p)"
    using get_effective_preset_custom_needs_project by blast
  then show ?thesis
    by (auto simp: get_preset_intervals_def split: option.splits)
next
  case False
  then show ?thesis by (simp add: get_preset_intervals_def)
qed

text \<open>
  For every preset but \<^verbatim>\<open>CUSTOM\<close> the site argument is not looked at, so an empty site
  dict, which has no project and hence another effective preset, gets the same answer
  as \<open>Dict s\<close>.
\<close>

lemma get_preset_intervals_ignores_site:
  "preset \<noteq> PRESET_CUSTOM \<Longrightarrow> get_preset_intervals T preset s = get_preset_intervals T preset s'"
  by (simp add: get_preset_intervals_def)

lemma get_visible_intervals_total: "\<exists>visible. get_visible_intervals T s = Inr visible"
proof -
  obtain ivs where "get_preset_intervals T (get_effective_preset s) (Some (Dict s)) = Inr ivs"
    using get_preset_intervals_effective by blast
  then show ?thesis by (simp add: get_visible_intervals_def Let_def)
qed

lemma append_tagged_eq:
  "append_tagged result ivs tag = result @ map (\<lambda>iv. (iv, tag)) ivs"
  by (induction ivs arbitrary: result) simp_all

lemma sort_start_eq:
  "sort_start x = (case fst (depth_key (fst x)) of None \<Rightarrow> 0 | Some n \<Rightarrow> n)"
  by (simp add: sort_start_def or_int_def split: option.splits)

text \<open>
  C2, as stated, fails on the code: for the preset \<^verbatim>\<open>CUSTOM\<close> and a site that has no
  project, \<^verbatim>\<open>project\<close> is \<^verbatim>\<open>None\<close> and \<^verbatim>\<open>project.get("soilSettings")\<close> raises
  \<^verbatim>\<open>AttributeError\<close>.
\<close>

theorem get_preset_intervals_raises_counterexample:
  "get_preset_intervals \<lparr>NRCSIntervalDefaults = [], BLMIntervalDefaults = []\<rparr> ''CUSTOM''
     (Some (Dict \<lparr>site_id = Some ''s1'', latitude = None, longitude = None, soilData = None,
                  project = None\<rparr>)) = Inl AttributeError"
  by (simp add: get_preset_intervals_def preset_names)

text \<open>
  C2, amended: unless the preset is \<^verbatim>\<open>CUSTOM\<close> and the site given has no project,
  \<^verbatim>\<open>get_preset_intervals\<close> returns a list and raises nothing: the fixed list for
  \<^verbatim>\<open>NRCS\<close> and \<^verbatim>\<open>BLM\<close>, the project's custom intervals for \<^verbatim>\<open>CUSTOM\<close> (the empty list
  when no site or an empty one is given, or when the project is empty or has no soil
  settings or no interval list), and the empty list for every other preset. The code only
  passes the effective preset of the site, which is \<^verbatim>\<open>CUSTOM\<close> only for a site with a
  project, so there it never raises.
\<close>

theorem get_preset_intervals_returns_list:
  "((preset = PRESET_CUSTOM \<longrightarrow>
       (case s of Some (Dict st) \<Rightarrow> project st \<noteq> None | _ \<Rightarrow> True)) \<longrightarrow>
    get_preset_intervals T preset s =
      Inr (if preset = PRESET_NRCS then NRCS_DEPTH_INTERVALS T
           else if preset = PRESET_BLM then BLM_DEPTH_INTERVALS T
           else if preset = PRESET_CUSTOM then
             (case s of
                Some (Dict st) \<Rightarrow>
                  (case project st of
                     Some (Dict p) \<Rightarrow>
                       (case soilSettings p of
                          None \<Rightarrow> []
                        | Some ss \<Rightarrow> (case ss_depthIntervals ss of None \<Rightarrow> [] | Some ivs \<Rightarrow> ivs))
                   | _ \<Rightarrow> [])
              | _ \<Rightarrow> [])
           else [])) \<and>
   (\<exists>ivs. get_preset_intervals T (get_effective_preset st0) (Some (Dict st0)) = Inr ivs)"
  using get_preset_intervals_effective [of T st0]
  by (auto simp: get_preset_intervals_def preset_names split: option.splits py_dict.splits)

theorem get_preset_intervals_returns_list_witness:
  "get_preset_intervals \<lparr>NRCSIntervalDefaults = [], BLMIntervalDefaults = []\<rparr> ''CUSTOM''
     (Some (Dict \<lparr>site_id = Some ''s1'', latitude = None, longitude = None, soilData = None,
                  project = Some (Dict \<lparr>soilSettings = None\<rparr>)\<rparr>)) = Inr [] \<and>
   get_preset_intervals \<lparr>NRCSIntervalDefaults = [], BLMIntervalDefaults = []\<rparr> ''CUSTOM'' None = Inr [] \<and>
   get_preset_intervals \<lparr>NRCSIntervalDefaults = [], BLMIntervalDefaults = []\<rparr> ''CUSTOM'' (Some Empty_dict) = Inr []"
  using get_preset_intervals_returns_list [of "''CUSTOM''"
      "Some (Dict \<lparr>site_id = Some ''s1'', latitude = None, longitude = None, soilData = None,
                   project = Some (Dict \<lparr>soilSettings = None\<rparr>)\<rparr>)" "\<lparr>NRCSIntervalDefaults = [], BLMIntervalDefaults = []\<rparr>"]
    get_preset_intervals_returns_list [of "''CUSTOM''" None "\<lparr>NRCSIntervalDefaults = [], BLMIntervalDefaults = []\<rparr>"]
    get_preset_intervals_returns_list [of "''CUSTOM''" "Some Empty_dict" "\<lparr>NRCSIntervalDefaults = [], BLMIntervalDefaults = []\<rparr>"]
  by (simp add: preset_names)



text \<open>
  C4: \<^verbatim>\<open>get_visible_intervals\<close> raises nothing. Its result holds exactly the intervals
  of the effective preset, each tagged with that preset, and all the site's own
  intervals, each tagged \<^verbatim>\<open>CUSTOM\<close>, with their multiplicities (nothing is dropped,
  merged or rewritten); it is sorted by start depth, a missing start counting as 0; and
  the elements of equal start keep the order they had in the combined list.
\<close>

theorem get_visible_intervals_sorted_stable:
  "\<exists>preset_intervals result.
     get_preset_intervals T (get_effective_preset s) (Some (Dict s)) = Inr preset_intervals \<and>
     get_visible_intervals T s = Inr result \<and>
     (let site_intervals = (case sd_depthIntervals (get_soilData s) of None \<Rightarrow> [] | Some ivs \<Rightarrow> ivs);
          combined = map (\<lambda>iv. (iv, get_effective_preset s)) preset_intervals @
                     map (\<lambda>iv. (iv, PRESET_CUSTOM)) site_intervals
      in mset result = mset combined \<and>
         sorted (map sort_start result) \<and>
         (\<forall>k. filter (\<lambda>x. sort_start x = k) result = filter (\<lambda>x. sort_start x = k) combined) \<and>
         (\<forall>x. sort_start x = (case fst (depth_key (fst x)) of None \<Rightarrow> 0 | Some n \<Rightarrow> n)))"
proof -
  obtain ivs where p: "get_preset_intervals T (get_effective_preset s) (Some (Dict s)) = Inr ivs"
    using get_preset_intervals_effective by blast
  then have "get_visible_intervals T s =
      Inr (sort_key sort_start
        (map (\<lambda>iv. (iv, get_effective_preset s)) ivs @
         map (\<lambda>iv. (iv, PRESET_CUSTOM))
           (case sd_depthIntervals (get_soilData s) of None \<Rightarrow> [] | Some ivs \<Rightarrow> ivs)))"
    by (simp add: get_visible_intervals_def Let_def append_tagged_eq)
  with p show ?thesis
    by (simp add: Let_def sort_key_stable sort_start_eq [symmetric])
qed

theorem get_visible_intervals_sorted_stable_witness:
  "get_visible_intervals
       \<lparr>NRCSIntervalDefaults =
          [\<lparr>depth_interval_start = 0, depth_interval_end = 5\<rparr>,
           \<lparr>depth_interval_start = 5, depth_interval_end = 15\<rparr>],
        BLMIntervalDefaults = []\<rparr>
       \<lparr>site_id = Some ''s1'', latitude = None, longitude = None,
        soilData = Some \<lparr>slopeSteepnessDegree = None, surfaceCracksSelect = None,
          sd_depthIntervalPreset = Some ''NRCS'',
          sd_depthIntervals = Some
            [\<lparr>depthInterval = Some \<lparr>di_start = Some 5, di_end = Some 15\<rparr>,
              label = Some ''mine'', soilTextureEnabled = Some True, soilColorEnabled = None\<rparr>,
             \<lparr>depthInterval = None,
              label = Some ''bare'', soilTextureEnabled = None, soilColorEnabled = None\<rparr>],
          depthDependentData = None\<rparr>,
        project = None\<rparr> =
   Inr [(\<lparr>depthInterval = Some \<lparr>di_start = Some 0, di_end = Some 5\<rparr>,
          label = Some ''0-5 cm'', soilTextureEnabled = None, soilColorEnabled = None\<rparr>, ''NRCS''),
        (\<lparr>depthInterval = None,
          label = Some ''bare'', soilTextureEnabled = None, soilColorEnabled = None\<rparr>, ''CUSTOM''),
        (\<lparr>depthInterval = Some \<lparr>di_start = Some 5, di_end = Some 15\<rparr>,
          label = Some ''5-15 cm'', soilTextureEnabled = None, soilColorEnabled = None\<rparr>, ''NRCS''),
        (\<lparr>depthInterval = Some \<lparr>di_start = Some 5, di_end = Some 15\<rparr>,
          label = Some ''mine'', soilTextureEnabled = Some True, soilColorEnabled = None\<rparr>,
         ''CUSTOM'')]"
  using get_visible_intervals_sorted_stable [of
       "\<lparr>NRCSIntervalDefaults =
          [\<lparr>depth_interval_start = 0, depth_interval_end = 5\<rparr>,
           \<lparr>depth_interval_start = 5, depth_interval_end = 15\<rparr>],
        BLMIntervalDefaults = []\<rparr>"
       "\<lparr>site_id = Some ''s1'', latitude = None, longitude = None,
        soilData = Some \<lparr>slopeSteepnessDegree = None, surfaceCracksSelect = None,
          sd_depthIntervalPreset = Some ''NRCS'',
          sd_depthIntervals = Some
            [\<lparr>depthInterval = Some \<lparr>di_start = Some 5, di_end = Some 15\<rparr>,
              label = Some ''mine'', soilTextureEnabled = Some True, soilColorEnabled = None\<rparr>,
             \<lparr>depthInterval = None,
              label = Some ''bare'', soilTextureEnabled = None, soilColorEnabled = None\<rparr>],
          depthDependentData = None\<rparr>,
        project = None\<rparr>"]
  by (simp add: get_visible_intervals_def get_effective_preset_def get_preset_intervals_def
      preset_names NRCS_DEPTH_INTERVALS_def build_depth_intervals_def get_soilData_def or_str_def
      Let_def str_int_digits sort_start_def depth_key_def or_int_def)

section \<open>Claims about the soil-id query\<close>

lemma depth_entry_total:
  assumes "color_in_range m"
  shows "\<exists>d. depth_entry table m = Inr d"
proof (cases "colorHue m")
  case None
  then show ?thesis by (simp add: depth_entry_def Let_def)
next
  case h: (Some h)
  show ?thesis
  proof (cases "colorValue m")
    case None
    with h show ?thesis by (simp add: depth_entry_def Let_def)
  next
    case v: (Some v)
    show ?thesis
    proof (cases "colorChroma m")
      case None
      with h v show ?thesis by (simp add: depth_entry_def Let_def)
    next
      case c: (Some c)
      from assms h obtain h' where h': "h = Finite h'" "0 \<le> h'" "h' \<le> 100"
        by (cases h) (simp_all add: color_in_range_def)
      from assms v obtain v' where v': "v = Finite v'"
        by (cases v) (simp_all add: color_in_range_def finite_float_def)
      from assms c obtain c' where c': "c = Finite c'"
        by (cases c) (simp_all add: color_in_range_def finite_float_def)
      obtain r where "munsell_to_lab table h v c = Inr r"
        using munsell_to_lab_total [OF h'(2,3)] unfolding h' v' c' by blast
      with h v c show ?thesis
        by (cases r) (auto simp: depth_entry_def Let_def)
    qed
  qed
qed

lemma collect_entries_Inr:
  "collect_entries table K acc ms = Inr es \<Longrightarrow>
   \<exists>ds. es = acc @ ds \<and>
     list_all2 (\<lambda>m d. depth_entry table m = Inr d) (filter (\<lambda>m. depth_key m \<in> K) ms) ds"
proof (induction ms arbitrary: acc)
  case Nil
  then show ?case by simp
next
  case (Cons m ms)
  show ?case
  proof (cases "depth_key m \<in> K")
    case False
    with Cons show ?thesis by simp
  next
    case True
    with Cons.prems obtain d where d: "depth_entry table m = Inr d"
      and rest: "collect_entries table K (acc @ [d]) ms = Inr es"
      by (auto split: sum.splits)
    from Cons.IH [OF rest] obtain ds where "es = (acc @ [d]) @ ds"
      and "list_all2 (\<lambda>m d. depth_entry table m = Inr d) (filter (\<lambda>m. depth_key m \<in> K) ms) ds"
      by blast
    with True d show ?thesis by simp
  qed
qed

lemma collect_entries_total:
  "\<forall>m \<in> set ms. color_in_range m \<Longrightarrow> \<exists>es. collect_entries table K acc ms = Inr es"
proof (induction ms arbitrary: acc)
  case Nil
  then show ?case by simp
next
  case (Cons m ms)
  then obtain d where "depth_entry table m = Inr d"
    using depth_entry_total [of m table] by auto
  with Cons show ?case by simp
qed

lemma fetch_soil_id_query:
  assumes "cache_lookup g s = None" and "truthy_num (latitude s)" and "truthy_num (longitude s)"
    and "soil_id_input (preset_defaults g) (munsell_lab_table g) s = Inr d"
  shows "snd (fetch_soil_id g s request) =
           [JDict [(''latitude'', json_real (latitude s)), (''longitude'', json_real (longitude s)),
                   (''data'', d)]]"
  using assms by (simp add: fetch_soil_id_def Let_def)

text \<open>
  C7: the visible intervals of the site are always computed. Whenever the payload is
  built, its \<^verbatim>\<open>depthDependentData\<close> list corresponds, element by element and in the
  order of the input, to the measurements whose \<^verbatim>\<open>(start, end)\<close> key is the key of a
  visible interval, each output being the entry built from its measurement; every
  other measurement is left out. The payload is built whenever the colour components of
  the measurements are finite and their hues lie on the scale from 0 to 100, and it is the \<^verbatim>\<open>data\<close> of the query that
  \<^verbatim>\<open>fetch_soil_id\<close> executes when there is no cache hit and the coordinates are truthy.
\<close>

theorem fetch_soil_id_keeps_visible:
  "\<exists>visible.
     get_visible_intervals (preset_defaults g) s = Inr visible \<and>
     (let measurements = (case depthDependentData (get_soilData s) of None \<Rightarrow> [] | Some ms \<Rightarrow> ms);
          kept = filter (\<lambda>m. depth_key m \<in> set (map (\<lambda>x. depth_key (fst x)) visible)) measurements;
          input = soil_id_input (preset_defaults g) (munsell_lab_table g) s
      in (\<forall>d. input = Inr d \<longrightarrow>
            (\<exists>slope cracks entries.
               d = JDict [(''slope'', slope), (''surfaceCracks'', cracks),
                          (''depthDependentData'', JList entries)] \<and>
               list_all2 (\<lambda>m e. depth_entry (munsell_lab_table g) m = Inr e) kept entries)) \<and>
         ((\<forall>m \<in> set measurements. color_in_range m) \<longrightarrow> (\<exists>d. input = Inr d)) \<and>
         (\<forall>d. input = Inr d \<and> cache_lookup g s = None \<and>
               truthy_num (latitude s) \<and> truthy_num (longitude s) \<longrightarrow>
            snd (fetch_soil_id g s request) =
              [JDict [(''latitude'', json_real (latitude s)),
                      (''longitude'', json_real (longitude s)), (''data'', d)]]))"
proof -
  let ?T = "preset_defaults g" and ?table = "munsell_lab_table g"
  obtain visible where v: "get_visible_intervals ?T s = Inr visible"
    using get_visible_intervals_total by blast
  define K where "K = set (map (\<lambda>x. depth_key (fst x)) visible)"
  define ms where "ms = (case depthDependentData (get_soilData s) of None \<Rightarrow> [] | Some ms \<Rightarrow> ms)"
  have shape: "\<exists>slope cracks entries.
        d = JDict [(''slope'', slope), (''surfaceCracks'', cracks),
                   (''depthDependentData'', JList entries)] \<and>
        list_all2 (\<lambda>m e. depth_entry ?table m = Inr e) (filter (\<lambda>m. depth_key m \<in> K) ms) entries"
    if "soil_id_input ?T ?table s = Inr d" for d
  proof -
    from that v obtain es where es: "collect_entries ?table K [] ms = Inr es"
      and d: "d = JDict [(''slope'', json_int (slopeSteepnessDegree (get_soilData s))),
                (''surfaceCracks'',
                   (case surfaceCracksSelect (get_soilData s) of
                      None \<Rightarrow> JStr ''NO_CRACKING''
                    | Some v \<Rightarrow> json_str v)),
                (''depthDependentData'', JList es)]"
      by (auto simp: soil_id_input_def Let_def K_def ms_def split: sum.splits)
    from collect_entries_Inr [OF es] d show ?thesis by auto
  qed
  have total: "\<exists>d. soil_id_input ?T ?table s = Inr d" if "\<forall>m \<in> set ms. color_in_range m"
  proof -
    from that obtain es where "collect_entries ?table K [] ms = Inr es"
      using collect_entries_total by blast
    with v show ?thesis
      by (simp add: soil_id_input_def Let_def K_def ms_def)
  qed
  have query: "snd (fetch_soil_id g s request) =
        [JDict [(''latitude'', json_real (latitude s)), (''longitude'', json_real (longitude s)),
                (''data'', d)]]"
    if "soil_id_input ?T ?table s = Inr d \<and> cache_lookup g s = None \<and>
        truthy_num (latitude s) \<and> truthy_num (longitude s)" for d
    using that by (simp add: fetch_soil_id_query)
  from v shape total query show ?thesis
    unfolding Let_def K_def ms_def by blast
qed

theorem fetch_soil_id_keeps_visible_witness:
  "snd (fetch_soil_id
       \<lparr>USE_SOIL_ID_CACHE = False, soil_id_cache = Map.empty, munsell_lab_table = [],
       preset_defaults = \<lparr>NRCSIntervalDefaults = [],
            BLMIntervalDefaults = [\<lparr>depth_interval_start = 0, depth_interval_end = 1\<rparr>]\<rparr>,
       schema_execute = (\<lambda>v (q::unit). \<lparr>res_errors = [], res_data = JNull\<rparr>)\<rparr>
       \<lparr>site_id = None, latitude = Some 1, longitude = Some 2,
        soilData = Some \<lparr>slopeSteepnessDegree = None, surfaceCracksSelect = None,
          sd_depthIntervalPreset = Some ''BLM'', sd_depthIntervals = None,
          depthDependentData = Some
            [\<lparr>depthInterval = Some \<lparr>di_start = Some 0, di_end = Some 1\<rparr>, texture = Some ''CLAY'',
              rockFragmentVolume = None, colorHue = Some (Finite 5),
              colorValue = Some (Finite 5), colorChroma = Some (Finite 1)\<rparr>,
             \<lparr>depthInterval = Some \<lparr>di_start = Some 3, di_end = Some 4\<rparr>, texture = None,
              rockFragmentVolume = None, colorHue = None, colorValue = None,
              colorChroma = None\<rparr>]\<rparr>,
        project = None\<rparr> ()) =
    [JDict [(''latitude'', JReal 1), (''longitude'', JReal 2),
      (''data'', JDict [(''slope'', JNull), (''surfaceCracks'', JStr ''NO_CRACKING''),
         (''depthDependentData'',
            JList [JDict [(''depthInterval'', JDict [(''start'', JInt 0), (''end'', JInt 1)]),
                          (''texture'', JStr ''CLAY'')]])])]]"
  using fetch_soil_id_keeps_visible [of
     "\<lparr>USE_SOIL_ID_CACHE = False, soil_id_cache = Map.empty, munsell_lab_table = [],
       preset_defaults = \<lparr>NRCSIntervalDefaults = [],
            BLMIntervalDefaults = [\<lparr>depth_interval_start = 0, depth_interval_end = 1\<rparr>]\<rparr>,
       schema_execute = (\<lambda>v (q::unit). \<lparr>res_errors = [], res_data = JNull\<rparr>)\<rparr>"
     "\<lparr>site_id = None, latitude = Some 1, longitude = Some 2,
        soilData = Some \<lparr>slopeSteepnessDegree = None, surfaceCracksSelect = None,
          sd_depthIntervalPreset = Some ''BLM'', sd_depthIntervals = None,
          depthDependentData = Some
            [\<lparr>depthInterval = Some \<lparr>di_start = Some 0, di_end = Some 1\<rparr>, texture = Some ''CLAY'',
              rockFragmentVolume = None, colorHue = Some (Finite 5),
              colorValue = Some (Finite 5), colorChroma = Some (Finite 1)\<rparr>,
             \<lparr>depthInterval = Some \<lparr>di_start = Some 3, di_end = Some 4\<rparr>, texture = None,
              rockFragmentVolume = None, colorHue = None, colorValue = None,
              colorChroma = None\<rparr>]\<rparr>,
        project = None\<rparr>" "()"]
  by (simp add: fetch_soil_id_def cache_lookup_def truthy_num_def soil_id_input_def
      get_visible_intervals_def get_effective_preset_def get_preset_intervals_def preset_names
      BLM_DEPTH_INTERVALS_def build_depth_intervals_def get_soilData_def or_str_def Let_def
      str_int_digits depth_key_def depth_entry_def munsell_to_lab_def json_int_def json_real_def
      json_str_def color_in_range_def finite_float_def)

text \<open>
  C9, as stated, fails on the code: the cache is read before the coordinates, so a site
  without coordinates whose id is cached gets the cached data, not the failure.
\<close>

theorem fetch_soil_id_missing_coordinates_counterexample:
  "fetch_soil_id
     \<lparr>USE_SOIL_ID_CACHE = True, soil_id_cache = [''s1'' \<mapsto> JStr ''cached''],
      munsell_lab_table = [],
      preset_defaults = \<lparr>NRCSIntervalDefaults = [], BLMIntervalDefaults = []\<rparr>,
      schema_execute = (\<lambda>v (q::unit). \<lparr>res_errors = [], res_data = JNull\<rparr>)\<rparr>
     \<lparr>site_id = Some ''s1'', latitude = None, longitude = None, soilData = None,
      project = None\<rparr> ()
   = (Inr (JStr ''cached''), []) \<and>
   JStr ''cached'' \<noteq> missing_coordinates"
  by (simp add: fetch_soil_id_def cache_lookup_def truthy_str_def missing_coordinates_def)

text \<open>
  C9, amended: for a site whose latitude or longitude is missing, \<^verbatim>\<open>fetch_soil_id\<close>
  executes no query; it returns the structured failure, unless the cache holds data for
  the site's id, which it then returns.
\<close>

theorem fetch_soil_id_missing_coordinates:
  "latitude s = None \<or> longitude s = None \<Longrightarrow>
   fetch_soil_id g s request =
     (Inr (case cache_lookup g s of None \<Rightarrow> missing_coordinates | Some cached \<Rightarrow> cached), [])"
  by (auto simp: fetch_soil_id_def truthy_num_def split: option.splits)

theorem fetch_soil_id_missing_coordinates_witness:
  "fetch_soil_id
     \<lparr>USE_SOIL_ID_CACHE = True, soil_id_cache = [''s1'' \<mapsto> JStr ''cached''],
      munsell_lab_table = [],
      preset_defaults = \<lparr>NRCSIntervalDefaults = [], BLMIntervalDefaults = []\<rparr>,
      schema_execute = (\<lambda>v (q::unit). \<lparr>res_errors = [], res_data = JNull\<rparr>)\<rparr>
     \<lparr>site_id = Some ''s2'', latitude = None, longitude = Some 3, soilData = None,
      project = None\<rparr> ()
   = (Inr (JDict [(''error'', JStr ''Site missing latitude or longitude'')]), [])"
  using fetch_soil_id_missing_coordinates [of
     "\<lparr>site_id = Some ''s2'', latitude = None, longitude = Some 3, soilData = None,
      project = None\<rparr>"
     "\<lparr>USE_SOIL_ID_CACHE = True, soil_id_cache = [''s1'' \<mapsto> JStr ''cached''],
      munsell_lab_table = [],
      preset_defaults = \<lparr>NRCSIntervalDefaults = [], BLMIntervalDefaults = []\<rparr>,
      schema_execute = (\<lambda>v (q::unit). \<lparr>res_errors = [], res_data = JNull\<rparr>)\<rparr>" "()"]
  by (simp add: cache_lookup_def truthy_str_def missing_coordinates_def)

text \<open>
  C10: without a cache hit, \<^verbatim>\<open>fetch_soil_id\<close> returns the structured failure, with no
  query executed, exactly when the latitude or the longitude is \<^verbatim>\<open>None\<close> or 0; with a
  cache hit it returns the cached data whatever the coordinates are. A cache hit is:
  the cache is enabled, the site id is a non-empty string, and the cache has that key.
\<close>

theorem fetch_soil_id_coordinates_truthiness:
  "(cache_lookup g s = None \<longrightarrow>
      (fetch_soil_id g s request = (Inr missing_coordinates, []) \<longleftrightarrow>
         latitude s = None \<or> latitude s = Some 0 \<or> longitude s = None \<or> longitude s = Some 0)) \<and>
   (\<forall>cached. cache_lookup g s = Some cached \<longrightarrow> fetch_soil_id g s request = (Inr cached, [])) \<and>
   (cache_lookup g s \<noteq> None \<longleftrightarrow>
      USE_SOIL_ID_CACHE g \<and> (\<exists>i. site_id s = Some i \<and> i \<noteq> [] \<and> soil_id_cache g i \<noteq> None))"
  by (auto simp: fetch_soil_id_def cache_lookup_def truthy_num_def truthy_str_def Let_def
      split: option.splits sum.splits)

theorem fetch_soil_id_coordinates_truthiness_witness:
  "fetch_soil_id
     \<lparr>USE_SOIL_ID_CACHE = True, soil_id_cache = [''s1'' \<mapsto> JStr ''cached''],
      munsell_lab_table = [],
      preset_defaults = \<lparr>NRCSIntervalDefaults = [], BLMIntervalDefaults = []\<rparr>,
      schema_execute = (\<lambda>v (q::unit). \<lparr>res_errors = [], res_data = JNull\<rparr>)\<rparr>
     \<lparr>site_id = Some ''s2'', latitude = Some 0, longitude = Some 3, soilData = None,
      project = None\<rparr> ()
   = (Inr missing_coordinates, []) \<and>
   fetch_soil_id
     \<lparr>USE_SOIL_ID_CACHE = True, soil_id_cache = [''s1'' \<mapsto> JStr ''cached''],
      munsell_lab_table = [],
      preset_defaults = \<lparr>NRCSIntervalDefaults = [], BLMIntervalDefaults = []\<rparr>,
      schema_execute = (\<lambda>v (q::unit). \<lparr>res_errors = [], res_data = JNull\<rparr>)\<rparr>
     \<lparr>site_id = Some ''s1'', latitude = Some 0, longitude = Some 3, soilData = None,
      project = None\<rparr> ()
   = (Inr (JStr ''cached''), [])"
  using fetch_soil_id_coordinates_truthiness [of
     "\<lparr>USE_SOIL_ID_CACHE = True, soil_id_cache = [''s1'' \<mapsto> JStr ''cached''],
      munsell_lab_table = [],
      preset_defaults = \<lparr>NRCSIntervalDefaults = [], BLMIntervalDefaults = []\<rparr>,
      schema_execute = (\<lambda>v (q::unit). \<lparr>res_errors = [], res_data = JNull\<rparr>)\<rparr>"
     "\<lparr>site_id = Some ''s2'', latitude = Some 0, longitude = Some 3, soilData = None,
      project = None\<rparr>" "()"]
   fetch_soil_id_coordinates_truthiness [of
     "\<lparr>USE_SOIL_ID_CACHE = True, soil_id_cache = [''s1'' \<mapsto> JStr ''cached''],
      munsell_lab_table = [],
      preset_defaults = \<lparr>NRCSIntervalDefaults = [], BLMIntervalDefaults = []\<rparr>,
      schema_execute = (\<lambda>v (q::unit). \<lparr>res_errors = [], res_data = JNull\<rparr>)\<rparr>"
     "\<lparr>site_id = Some ''s1'', latitude = Some 0, longitude = Some 3, soilData = None,
      project = None\<rparr>" "()"]
  by (simp add: cache_lookup_def truthy_str_def)

section \<open>The entry of one measurement\<close>

lemma depth_entry_eq:
  "depth_entry table m =
     (let base =
        (''depthInterval'',
           JDict [(''start'', json_int (fst (depth_key m))), (''end'', json_int (snd (depth_key m)))]) #
        (case texture m of None \<Rightarrow> [] | Some t \<Rightarrow> if t = [] then [] else [(''texture'', JStr t)]) @
        (case rockFragmentVolume m of
           None \<Rightarrow> []
         | Some r \<Rightarrow> if r = [] then [] else [(''rockFragmentVolume'', JStr r)])
      in case (colorHue m, colorValue m, colorChroma m) of
           (Some h, Some v, Some c) \<Rightarrow>
             (case munsell_to_lab table h v c of
                Inl e \<Rightarrow> Inl e
              | Inr None \<Rightarrow> Inr (JDict base)
              | Inr (Some (L, A, B)) \<Rightarrow>
                  Inr (JDict (base @
                     [(''colorLAB'', JDict [(''L'', JReal L), (''A'', JReal A), (''B'', JReal B)])])))
         | _ \<Rightarrow> Inr (JDict base))"
proof -
  have k: "(case depthInterval m of None \<Rightarrow> \<lparr>di_start = None, di_end = None\<rparr> | Some d \<Rightarrow> d) =
           \<lparr>di_start = fst (depth_key m), di_end = snd (depth_key m)\<rparr>"
    by (simp add: depth_key_def split: option.splits)
  have t: "(case texture m of None \<Rightarrow> e | Some t \<Rightarrow> if t \<noteq> [] then e @ [(''texture'', JStr t)] else e) =
           e @ (case texture m of None \<Rightarrow> [] | Some t \<Rightarrow> if t = [] then [] else [(''texture'', JStr t)])"
    for e by (simp split: option.splits)
  have r: "(case rockFragmentVolume m of None \<Rightarrow> e
            | Some r \<Rightarrow> if r \<noteq> [] then e @ [(''rockFragmentVolume'', JStr r)] else e) =
           e @ (case rockFragmentVolume m of None \<Rightarrow> []
                | Some r \<Rightarrow> if r = [] then [] else [(''rockFragmentVolume'', JStr r)])"
    for e by (simp split: option.splits)
  show ?thesis
    unfolding depth_entry_def Let_def k t r by (simp split: option.splits sum.splits)
qed


lemma entry_base_fields:
  fixes topt ropt :: "string option" and d c :: json and extra :: "(string \<times> json) list"
  defines "base \<equiv>
     (''depthInterval'', d) #
     (case topt of None \<Rightarrow> [] | Some t \<Rightarrow> if t = [] then [] else [(''texture'', JStr t)]) @
     (case ropt of None \<Rightarrow> [] | Some r \<Rightarrow> if r = [] then [] else [(''rockFragmentVolume'', JStr r)])"
  assumes "d \<noteq> JNull" and "c \<noteq> JNull"
    and "extra = [] \<or> extra = [(''colorLAB'', c)]"
  shows "distinct (map fst (base @ extra)) \<and> JNull \<notin> snd ` set (base @ extra) \<and>
         map_of (base @ extra) ''depthInterval'' = Some d \<and>
         map_of (base @ extra) ''texture'' =
           (case topt of None \<Rightarrow> None | Some t \<Rightarrow> if t = [] then None else Some (JStr t)) \<and>
         map_of (base @ extra) ''rockFragmentVolume'' =
           (case ropt of None \<Rightarrow> None | Some r \<Rightarrow> if r = [] then None else Some (JStr r)) \<and>
         map_of (base @ extra) ''colorLAB'' = map_of extra ''colorLAB''"
  using assms(2-4) unfolding base_def
  by (cases topt; cases ropt) auto


lemma depth_entry_shape:
  fixes table m
  defines "base \<equiv>
     (''depthInterval'',
        JDict [(''start'', json_int (fst (depth_key m))), (''end'', json_int (snd (depth_key m)))]) #
     (case texture m of None \<Rightarrow> [] | Some t \<Rightarrow> if t = [] then [] else [(''texture'', JStr t)]) @
     (case rockFragmentVolume m of
        None \<Rightarrow> []
      | Some r \<Rightarrow> if r = [] then [] else [(''rockFragmentVolume'', JStr r)])"
  defines "lab \<equiv>
     (case (colorHue m, colorValue m, colorChroma m) of
        (Some h, Some v, Some c) \<Rightarrow>
          (case munsell_to_lab table h v c of
             Inr (Some (L, A, B)) \<Rightarrow>
               Some (JDict [(''L'', JReal L), (''A'', JReal A), (''B'', JReal B)])
           | _ \<Rightarrow> None)
      | _ \<Rightarrow> None)"
  defines "err \<equiv>
     (case (colorHue m, colorValue m, colorChroma m) of
        (Some h, Some v, Some c) \<Rightarrow>
          (case munsell_to_lab table h v c of Inl e \<Rightarrow> Some e | Inr _ \<Rightarrow> None)
      | _ \<Rightarrow> None)"
  shows "depth_entry table m =
           (case err of
              Some e \<Rightarrow> Inl e
            | None \<Rightarrow>
                Inr (JDict (base @ (case lab of None \<Rightarrow> [] | Some c \<Rightarrow> [(''colorLAB'', c)]))))"
proof -
  have eq: "depth_entry table m =
      (case (colorHue m, colorValue m, colorChroma m) of
           (Some h, Some v, Some c) \<Rightarrow>
             (case munsell_to_lab table h v c of
                Inl e \<Rightarrow> Inl e
              | Inr None \<Rightarrow> Inr (JDict base)
              | Inr (Some (L, A, B)) \<Rightarrow>
                  Inr (JDict (base @
                     [(''colorLAB'', JDict [(''L'', JReal L), (''A'', JReal A), (''B'', JReal B)])])))
         | _ \<Rightarrow> Inr (JDict base))"
    using depth_entry_eq [of table m] unfolding Let_def base_def .
  show ?thesis
  proof (cases "colorHue m")
    case None
    then show ?thesis by (simp add: eq lab_def err_def)
  next
    case h: (Some h)
    show ?thesis
    proof (cases "colorValue m")
      case None
      with h show ?thesis by (simp add: eq lab_def err_def)
    next
      case v: (Some v)
      show ?thesis
      proof (cases "colorChroma m")
        case None
        with h v show ?thesis by (simp add: eq lab_def err_def)
      next
        case c: (Some c)
        show ?thesis
        proof (cases "munsell_to_lab table h v c")
          case (Inl e)
          with h v c show ?thesis by (simp add: eq lab_def err_def)
        next
          case (Inr r)
          show ?thesis
          proof (cases r)
            case None
            with Inr h v c show ?thesis by (simp add: eq lab_def err_def)
          next
            case (Some t)
            obtain L A B where "t = (L, A, B)" by (cases t)
            with Some Inr h v c show ?thesis by (simp add: eq lab_def err_def)
          qed
        qed
      qed
    qed
  qed
qed


lemma color_err_iff:
  "(case (hue, val, chr) of
      (Some h, Some v, Some c) \<Rightarrow>
        (case munsell_to_lab table h v c of Inl e \<Rightarrow> Some e | Inr _ \<Rightarrow> None)
    | _ \<Rightarrow> None) = Some e \<longleftrightarrow>
   (\<exists>h v c. hue = Some h \<and> val = Some v \<and> chr = Some c \<and> munsell_to_lab table h v c = Inl e)"
  by (cases hue; cases val; cases chr) (auto split: sum.splits)


text \<open>
  C8: the entry built for a measurement. \<^verbatim>\<open>depth_entry\<close> raises only when all three
  colour components are there and the converter raises. Otherwise the entry is a dict
  with distinct keys and no \<^verbatim>\<open>None\<close> value; it always has \<^verbatim>\<open>depthInterval\<close>; it has
  \<^verbatim>\<open>texture\<close> and \<^verbatim>\<open>rockFragmentVolume\<close> exactly when the measurement has a non-empty
  one; and it has \<^verbatim>\<open>colorLAB\<close> exactly when the three colour components are there (0
  included) and the converter finds a triple, which it then carries. When the converter
  finds nothing the entry is still built, without \<^verbatim>\<open>colorLAB\<close>.
\<close>

theorem depth_entry_fields:
  "(\<forall>e. depth_entry table m = Inl e \<longleftrightarrow>
        (\<exists>h v c. colorHue m = Some h \<and> colorValue m = Some v \<and> colorChroma m = Some c \<and>
                 munsell_to_lab table h v c = Inl e)) \<and>
   (\<forall>d. depth_entry table m = Inr d \<longrightarrow>
      (\<exists>kvs. d = JDict kvs \<and> distinct (map fst kvs) \<and> JNull \<notin> snd ` set kvs \<and>
         map_of kvs ''depthInterval'' =
           Some (JDict [(''start'', json_int (fst (depth_key m))),
                        (''end'', json_int (snd (depth_key m)))]) \<and>
         map_of kvs ''texture'' =
           (case texture m of None \<Rightarrow> None | Some t \<Rightarrow> if t = [] then None else Some (JStr t)) \<and>
         map_of kvs ''rockFragmentVolume'' =
           (case rockFragmentVolume m of
              None \<Rightarrow> None
            | Some r \<Rightarrow> if r = [] then None else Some (JStr r)) \<and>
         map_of kvs ''colorLAB'' =
           (case (colorHue m, colorValue m, colorChroma m) of
              (Some h, Some v, Some c) \<Rightarrow>
                (case munsell_to_lab table h v c of
                   Inr (Some (L, A, B)) \<Rightarrow>
                     Some (JDict [(''L'', JReal L), (''A'', JReal A), (''B'', JReal B)])
                 | _ \<Rightarrow> None)
            | _ \<Rightarrow> None)))"
proof -
  let ?di = "JDict [(''start'', json_int (fst (depth_key m))), (''end'', json_int (snd (depth_key m)))]"
  define base where "base =
     (''depthInterval'', ?di) #
     (case texture m of None \<Rightarrow> [] | Some t \<Rightarrow> if t = [] then [] else [(''texture'', JStr t)]) @
     (case rockFragmentVolume m of
        None \<Rightarrow> []
      | Some r \<Rightarrow> if r = [] then [] else [(''rockFragmentVolume'', JStr r)])"
  define lab where "lab =
     (case (colorHue m, colorValue m, colorChroma m) of
        (Some h, Some v, Some c) \<Rightarrow>
          (case munsell_to_lab table h v c of
             Inr (Some (L, A, B)) \<Rightarrow>
               Some (JDict [(''L'', JReal L), (''A'', JReal A), (''B'', JReal B)])
           | _ \<Rightarrow> None)
      | _ \<Rightarrow> None)"
  define err where "err =
     (case (colorHue m, colorValue m, colorChroma m) of
        (Some h, Some v, Some c) \<Rightarrow>
          (case munsell_to_lab table h v c of Inl e \<Rightarrow> Some e | Inr _ \<Rightarrow> None)
      | _ \<Rightarrow> None)"
  define extra where "extra = (case lab of None \<Rightarrow> [] | Some c \<Rightarrow> [(''colorLAB'', c)])"
  have shape: "depth_entry table m =
      (case err of Some e \<Rightarrow> Inl e | None \<Rightarrow> Inr (JDict (base @ extra)))"
    using depth_entry_shape [of table m] unfolding base_def lab_def err_def extra_def .
  have err: "err = Some e \<longleftrightarrow>
      (\<exists>h v c. colorHue m = Some h \<and> colorValue m = Some v \<and> colorChroma m = Some c \<and>
               munsell_to_lab table h v c = Inl e)" for e
    unfolding err_def by (rule color_err_iff)
  have raises: "depth_entry table m = Inl e \<longleftrightarrow>
      (\<exists>h v c. colorHue m = Some h \<and> colorValue m = Some v \<and> colorChroma m = Some c \<and>
               munsell_to_lab table h v c = Inl e)" for e
    unfolding err [symmetric] shape by (cases err) simp_all
  have lab_not_null: "lab \<noteq> Some JNull"
    unfolding lab_def by (simp split: option.splits sum.splits prod.splits)
  obtain c where ex: "extra = [] \<or> extra = [(''colorLAB'', c)]" and c: "c \<noteq> JNull"
    and look: "map_of extra ''colorLAB'' = lab"
  proof (cases lab)
    case None
    with that [of "JInt 0"] show ?thesis by (simp add: extra_def)
  next
    case (Some c)
    with that [of c] lab_not_null show ?thesis by (simp add: extra_def)
  qed
  have "?di \<noteq> JNull" by simp
  note f = entry_base_fields [OF this c ex, of "texture m" "rockFragmentVolume m", folded base_def]
  have fields: "\<exists>kvs. d = JDict kvs \<and> distinct (map fst kvs) \<and> JNull \<notin> snd ` set kvs \<and>
         map_of kvs ''depthInterval'' = Some ?di \<and>
         map_of kvs ''texture'' =
           (case texture m of None \<Rightarrow> None | Some t \<Rightarrow> if t = [] then None else Some (JStr t)) \<and>
         map_of kvs ''rockFragmentVolume'' =
           (case rockFragmentVolume m of
              None \<Rightarrow> None
            | Some r \<Rightarrow> if r = [] then None else Some (JStr r)) \<and>
         map_of kvs ''colorLAB'' = lab"
    if "depth_entry table m = Inr d" for d
  proof -
    from that have "d = JDict (base @ extra)"
      unfolding shape by (cases err) simp_all
    with f look show ?thesis by simp
  qed
  show ?thesis
    using raises fields unfolding lab_def by blast
qed

theorem depth_entry_fields_witness:
  "depth_entry [((''N'', 0, 0), (20, 1, 2))]
     \<lparr>depthInterval = Some \<lparr>di_start = Some 0, di_end = Some 5\<rparr>, texture = Some [],
       rockFragmentVolume = Some ''VOLUME_0_1'', colorHue = Some (Finite 0),
       colorValue = Some (Finite 0), colorChroma = Some (Finite 0)\<rparr> =
   Inr (JDict [(''depthInterval'', JDict [(''start'', JInt 0), (''end'', JInt 5)]),
               (''rockFragmentVolume'', JStr ''VOLUME_0_1''),
               (''colorLAB'', JDict [(''L'', JReal 20), (''A'', JReal 1), (''B'', JReal 2)])]) \<and>
   depth_entry [((''N'', 3, 0), (20, 1, 2))]
     \<lparr>depthInterval = Some \<lparr>di_start = Some 0, di_end = Some 5\<rparr>, texture = Some [],
       rockFragmentVolume = Some ''VOLUME_0_1'', colorHue = Some (Finite 0),
       colorValue = Some (Finite 0), colorChroma = Some (Finite 0)\<rparr> =
   Inr (JDict [(''depthInterval'', JDict [(''start'', JInt 0), (''end'', JInt 5)]),
               (''rockFragmentVolume'', JStr ''VOLUME_0_1'')])"
  using depth_entry_fields [of "[((''N'', 0, 0), (20, 1, 2))]"
     "\<lparr>depthInterval = Some \<lparr>di_start = Some 0, di_end = Some 5\<rparr>, texture = Some [],
       rockFragmentVolume = Some ''VOLUME_0_1'', colorHue = Some (Finite 0),
       colorValue = Some (Finite 0), colorChroma = Some (Finite 0)\<rparr>"]
   depth_entry_fields [of "[((''N'', 3, 0), (20, 1, 2))]"
     "\<lparr>depthInterval = Some \<lparr>di_start = Some 0, di_end = Some 5\<rparr>, texture = Some [],
       rockFragmentVolume = Some ''VOLUME_0_1'', colorHue = Some (Finite 0),
       colorValue = Some (Finite 0), colorChroma = Some (Finite 0)\<rparr>"]
  by (simp add: depth_entry_def munsell_to_lab_finite py_round_0 json_int_def depth_key_def
      Let_def)


end
